theory Spec2Isabelle
  imports Main
begin

section \<open>Theme Controller (js/scripts.js, initTheme and toggleTheme)\<close>

text \<open>
  The theme lives in two places: the \<^verbatim>\<open>data-theme\<close> attribute of the document body
  (\<open>None\<close> when the attribute is absent, as \<^verbatim>\<open>getAttribute\<close> returns null) and the
  browser's local storage, a map from keys to strings. \<^verbatim>\<open>announceThemeChange\<close> inserts a
  live-region node with a text; the texts inserted are kept in \<open>announcements\<close> (the removal
  of the node by a timer one second later is not part of the theme state).
\<close>

record theme_state =
  data_theme :: "string option"
  localStorage :: "string \<rightharpoonup> string"
  announcements :: "string list"

text \<open>JavaScript's \<^verbatim>\<open>a || b\<close> on a value that is null or a string: null and the empty
  string are falsy.\<close>

definition or_default :: "string option \<Rightarrow> string \<Rightarrow> string" where
  "or_default v d = (case v of None \<Rightarrow> d | Some s \<Rightarrow> if s = [] then d else s)"

definition initTheme :: "theme_state \<Rightarrow> theme_state" where
  "initTheme s =
     (let savedTheme = or_default (localStorage s ''theme'') ''dark''
      in s\<lparr>data_theme := Some savedTheme\<rparr>)"

definition announceThemeChange :: "string \<Rightarrow> theme_state \<Rightarrow> theme_state" where
  "announceThemeChange theme s =
     s\<lparr>announcements := announcements s @ [''Theme changed to '' @ theme @ '' mode'']\<rparr>"

definition toggleTheme :: "theme_state \<Rightarrow> theme_state" where
  "toggleTheme s =
     (let currentTheme = data_theme s;
          newTheme = (if currentTheme = Some ''dark'' then ''light'' else ''dark'');
          s1 = s\<lparr>data_theme := Some newTheme\<rparr>;
          s2 = s1\<lparr>localStorage := (localStorage s1)(''theme'' \<mapsto> newTheme)\<rparr>
      in announceThemeChange newTheme s2)"

section \<open>The page: DOM state of the navigation menu, the scroll router and the skip link\<close>

text \<open>
  Elements are node identities. The page record holds what the handlers read and write:
  \<^item> \<open>querySelector\<close>: the first element matching a selector, \<open>None\<close> for null. The
    selectors of the script (\<^verbatim>\<open>.navbar\<close>, \<^verbatim>\<open>.mobile-menu-toggle\<close>, \<^verbatim>\<open>#about\<close>, the href of an
    in-page anchor) select on ids and on classes that no handler changes, so the lookup
    is a fixed table of the document.
  \<^item> \<open>selector_valid\<close>: whether the browser's selector parser accepts a string;
    \<^verbatim>\<open>document.querySelector\<close> throws a SyntaxError on a string it rejects (an href such as
    \<^verbatim>\<open>#1abc\<close>, whose id starts with a digit). The three constant selectors of the script
    are valid.
  \<^item> \<open>getElementById\<close>: the element carrying an id, the target a fragment href names. No
    handler reads it.
  \<^item> \<open>contains\<close>: \<^verbatim>\<open>node.contains(other)\<close>, the document's tree structure.
  \<^item> \<open>classList\<close> and \<open>attributes\<close> of every element.
  \<^item> \<open>offsetTop\<close> of every element and the window's \<open>innerWidth\<close>.
  \<^item> \<open>focusable\<close>: whether an element can take focus (a link, a button, an element with
    a \<^verbatim>\<open>tabindex\<close>; a plain section cannot), and \<open>activeElement\<close>, the element that has
    the keyboard focus (\<open>None\<close> while the body has it).
  \<^item> \<open>scrollTo_calls\<close>: the \<^verbatim>\<open>top\<close> of every \<^verbatim>\<open>window.scrollTo\<close> call, oldest first.
  \<^item> \<open>body_children\<close>: the child nodes of the document body.
\<close>

type_synonym elem = nat

record page =
  querySelector :: "string \<Rightarrow> elem option"
  selector_valid :: "string \<Rightarrow> bool"
  getElementById :: "string \<Rightarrow> elem option"
  contains :: "elem \<Rightarrow> elem \<Rightarrow> bool"
  classList :: "elem \<Rightarrow> string set"
  attributes :: "elem \<Rightarrow> string \<rightharpoonup> string"
  offsetTop :: "elem \<Rightarrow> int"
  innerWidth :: int
  focusable :: "elem \<Rightarrow> bool"
  activeElement :: "elem option"
  scrollTo_calls :: "int list"
  body_children :: "elem list"

datatype js_error = TypeError | NotFoundError | SyntaxError

definition classList_contains :: "elem \<Rightarrow> string \<Rightarrow> page \<Rightarrow> bool" where
  "classList_contains e c p = (c \<in> classList p e)"

definition classList_add :: "elem \<Rightarrow> string \<Rightarrow> page \<Rightarrow> page" where
  "classList_add e c p = p\<lparr>classList := (classList p)(e := insert c (classList p e))\<rparr>"

definition classList_remove :: "elem \<Rightarrow> string \<Rightarrow> page \<Rightarrow> page" where
  "classList_remove e c p = p\<lparr>classList := (classList p)(e := classList p e - {c})\<rparr>"

definition classList_toggle :: "elem \<Rightarrow> string \<Rightarrow> page \<Rightarrow> page" where
  "classList_toggle e c p =
     (if classList_contains e c p then classList_remove e c p else classList_add e c p)"

definition setAttribute :: "elem \<Rightarrow> string \<Rightarrow> string \<Rightarrow> page \<Rightarrow> page" where
  "setAttribute e k v p = p\<lparr>attributes := (attributes p)(e := (attributes p e)(k \<mapsto> v))\<rparr>"

text \<open>\<^verbatim>\<open>element.focus()\<close>: the focus moves when the element can take it, and stays where it
  is otherwise.\<close>

definition focus :: "elem \<Rightarrow> page \<Rightarrow> page" where
  "focus e p = (if focusable p e then p\<lparr>activeElement := Some e\<rparr> else p)"

text \<open>\<^verbatim>\<open>document.querySelector\<close> on a string that need not be a valid selector.\<close>

definition document_querySelector :: "string \<Rightarrow> page \<Rightarrow> js_error + elem option" where
  "document_querySelector sel p =
     (if selector_valid p sel then Inr (querySelector p sel) else Inl SyntaxError)"

definition scrollTo :: "int \<Rightarrow> page \<Rightarrow> page" where
  "scrollTo y p = p\<lparr>scrollTo_calls := scrollTo_calls p @ [y]\<rparr>"

text \<open>\<^verbatim>\<open>document.body.removeChild(c)\<close> throws NotFoundError when \<open>c\<close> is no child of the body.\<close>

definition removeChild :: "elem \<Rightarrow> page \<Rightarrow> js_error + page" where
  "removeChild c p =
     (if c \<in> set (body_children p)
      then Inr (p\<lparr>body_children := removeAll c (body_children p)\<rparr>)
      else Inl NotFoundError)"

text \<open>\<^verbatim>\<open>Boolean.prototype.toString\<close>.\<close>

definition toString :: "bool \<Rightarrow> string" where
  "toString b = (if b then ''true'' else ''false'')"

subsection \<open>Navigation Controller (bindEvents, updateAriaAttributes, the resize handler)\<close>

definition updateAriaAttributes :: "elem \<Rightarrow> elem \<Rightarrow> page \<Rightarrow> page" where
  "updateAriaAttributes button menu p =
     (let isExpanded = classList_contains menu ''open'' p;
          p1 = setAttribute button ''aria-expanded'' (toString isExpanded) p
      in setAttribute menu ''aria-hidden'' (toString (\<not> isExpanded)) p1)"

text \<open>The click listener of the toggle button; it is registered only when both the button
  and the navbar exist.\<close>

definition mobileToggle_click :: "page \<Rightarrow> page" where
  "mobileToggle_click p =
     (case (querySelector p ''.mobile-menu-toggle'', querySelector p ''.navbar'') of
        (Some mobileToggle, Some navbar) \<Rightarrow>
          updateAriaAttributes mobileToggle navbar (classList_toggle navbar ''open'' p)
      | _ \<Rightarrow> p)"

text \<open>The click listener of the document, for a click whose target is \<open>target\<close>. With no
  navbar, \<^verbatim>\<open>navbar?.classList.contains('open')\<close> is undefined and nothing happens.\<close>

definition document_click :: "elem \<Rightarrow> page \<Rightarrow> page" where
  "document_click target p =
     (case querySelector p ''.navbar'' of
        None \<Rightarrow> p
      | Some navbar \<Rightarrow>
          if \<not> contains p navbar target \<and> classList_contains navbar ''open'' p then
            (let p1 = classList_remove navbar ''open'' p
             in case querySelector p ''.mobile-menu-toggle'' of
                  None \<Rightarrow> p1
                | Some mobileToggle \<Rightarrow> setAttribute mobileToggle ''aria-expanded'' ''false'' p1)
          else p)"

text \<open>A click on the toggle button runs the button's listener and then, as the event
  bubbles, the document's listener with the button as target.\<close>

definition click_on_toggle :: "page \<Rightarrow> page" where
  "click_on_toggle p =
     (case querySelector p ''.mobile-menu-toggle'' of
        None \<Rightarrow> p
      | Some mobileToggle \<Rightarrow> document_click mobileToggle (mobileToggle_click p))"

text \<open>The keydown listener of \<open>bindEvents\<close>, for a key named \<open>key\<close>.\<close>

definition document_keydown :: "string \<Rightarrow> page \<Rightarrow> page" where
  "document_keydown key p =
     (case querySelector p ''.navbar'' of
        None \<Rightarrow> p
      | Some navbar \<Rightarrow>
          if key = ''Escape'' \<and> classList_contains navbar ''open'' p then
            (let p1 = classList_remove navbar ''open'' p
             in case querySelector p ''.mobile-menu-toggle'' of
                  None \<Rightarrow> p1
                | Some mobileToggle \<Rightarrow>
                    focus mobileToggle (setAttribute mobileToggle ''aria-expanded'' ''false'' p1))
          else p)"

text \<open>\<^verbatim>\<open>if (navbar?.classList.contains('open')) navbar.classList.remove('open')\<close>, with the
  navbar queried afresh: the close used by the resize handler and by the anchor click.\<close>

definition close_navbar :: "page \<Rightarrow> page" where
  "close_navbar p =
     (case querySelector p ''.navbar'' of
        None \<Rightarrow> p
      | Some navbar \<Rightarrow>
          if classList_contains navbar ''open'' p then classList_remove navbar ''open'' p else p)"

text \<open>The function wrapped by the debounced resize listener.\<close>

definition resize_handler :: "page \<Rightarrow> page" where
  "resize_handler p = (if innerWidth p > 768 then close_navbar p else p)"

subsection \<open>Scroll Router (setupSmoothScrolling)\<close>

text \<open>The click listener of an anchor whose \<^verbatim>\<open>href\<close> attribute is \<open>targetId\<close>. The first
  component of the result is how the handler ended: with the error it threw, or normally
  and then whether \<^verbatim>\<open>preventDefault\<close> was called. The second is the page after the
  handler.\<close>

definition anchor_click :: "string \<Rightarrow> page \<Rightarrow> (js_error + bool) \<times> page" where
  "anchor_click targetId p =
     (if targetId = ''#'' \<or> targetId = ''#page-top'' then (Inr True, scrollTo 0 p)
      else case document_querySelector targetId p of
             Inl err \<Rightarrow> (Inl err, p)
           | Inr None \<Rightarrow> (Inr False, p)
           | Inr (Some targetElement) \<Rightarrow>
               (let headerOffset = (if innerWidth p \<le> 768 then 80 else 0);
                    elementPosition = offsetTop p targetElement - headerOffset;
                    p1 = scrollTo elementPosition p;
                    p2 = close_navbar p1
                in (Inr True, focus targetElement p2)))"

subsection \<open>The skip link\<close>

text \<open>The blur listener of the inserted skip link \<open>skipLink\<close>.\<close>

definition skipLink_blur :: "elem \<Rightarrow> page \<Rightarrow> page" where
  "skipLink_blur skipLink p =
     (if skipLink \<in> set (body_children p)
      then p\<lparr>body_children := removeAll skipLink (body_children p)\<rparr>
      else p)"

text \<open>The click listener of the inserted skip link \<open>skipLink\<close>, after its
  \<^verbatim>\<open>preventDefault\<close>: \<^verbatim>\<open>document.querySelector('#about').focus()\<close> throws a TypeError when
  the query is null, and the handler ends there. When the call takes the focus away from
  the skip link, the browser runs the skip link's blur listener before \<^verbatim>\<open>focus()\<close>
  returns; \<^verbatim>\<open>removeChild\<close> comes after.\<close>

definition skipLink_click :: "elem \<Rightarrow> page \<Rightarrow> js_error + page" where
  "skipLink_click skipLink p =
     (case querySelector p ''#about'' of
        None \<Rightarrow> Inl TypeError
      | Some about \<Rightarrow>
          (let p1 = focus about p;
               p2 = (if activeElement p = Some skipLink \<and> activeElement p1 \<noteq> Some skipLink
                     then skipLink_blur skipLink p1 else p1)
           in removeChild skipLink p2))"

subsection \<open>What the menu claims observe\<close>

definition menu_open :: "page \<Rightarrow> bool" where
  "menu_open p =
     (case querySelector p ''.navbar'' of None \<Rightarrow> False
      | Some navbar \<Rightarrow> classList_contains navbar ''open'' p)"

definition aria_expanded :: "page \<Rightarrow> string option" where
  "aria_expanded p =
     (case querySelector p ''.mobile-menu-toggle'' of None \<Rightarrow> None
      | Some mobileToggle \<Rightarrow> attributes p mobileToggle ''aria-expanded'')"

definition aria_hidden :: "page \<Rightarrow> string option" where
  "aria_hidden p =
     (case querySelector p ''.navbar'' of None \<Rightarrow> None
      | Some navbar \<Rightarrow> attributes p navbar ''aria-hidden'')"

definition menu_state :: "page \<Rightarrow> bool \<times> string option \<times> string option" where
  "menu_state p = (menu_open p, aria_expanded p, aria_hidden p)"

definition aria_consistent :: "page \<Rightarrow> bool" where
  "aria_consistent p =
     ((menu_open p = (aria_expanded p = Some ''true''))
      \<and> (menu_open p = (aria_hidden p = Some ''false'')))"

text \<open>A page with a navbar (element 1) holding the toggle button (element 2), a section
  \<^verbatim>\<open>#about\<close> (element 3) outside the navbar that can take focus, a block with the id
  \<^verbatim>\<open>1abc\<close> (element 4), the menu closed and its ARIA attributes saying so.\<close>

definition demo_page :: page where
  "demo_page =
     \<lparr>querySelector = (\<lambda>sel. if sel = ''.navbar'' then Some 1
                              else if sel = ''.mobile-menu-toggle'' then Some 2
                              else if sel = ''#about'' then Some 3 else None),
      selector_valid = (\<lambda>sel. sel \<noteq> ''#1abc''),
      getElementById = (\<lambda>i. if i = ''about'' then Some 3
                            else if i = ''1abc'' then Some 4 else None),
      contains = (\<lambda>a b. a = b \<or> (a = 1 \<and> b = 2)),
      classList = (\<lambda>e. {}),
      attributes = (\<lambda>e. if e = 2 then [''aria-expanded'' \<mapsto> ''false'']
                         else if e = 1 then [''aria-hidden'' \<mapsto> ''true''] else Map.empty),
      offsetTop = (\<lambda>e. if e = 3 then 600 else 0),
      innerWidth = 768,
      focusable = (\<lambda>e. e = 2 \<or> e = 3),
      activeElement = None,
      scrollTo_calls = [],
      body_children = [1, 3]\<rparr>"

text \<open>The same page without an element \<^verbatim>\<open>#about\<close>, and with an inserted skip link
  (element 9) as first child of the body, holding the focus.\<close>

definition page_without_about :: page where
  "page_without_about =
     demo_page\<lparr>querySelector := (\<lambda>sel. if sel = ''.navbar'' then Some 1
                                      else if sel = ''.mobile-menu-toggle'' then Some 2
                                      else None),
               getElementById := (\<lambda>i. None),
               focusable := (\<lambda>e. e = 2 \<or> e = 9),
               activeElement := Some 9,
               body_children := [9, 1]\<rparr>"

text \<open>The demo page with a plain section \<^verbatim>\<open>#about\<close> that cannot take focus.\<close>

definition page_plain_section :: page where
  "page_plain_section = demo_page\<lparr>focusable := (\<lambda>e. e = 2)\<rparr>"

text \<open>The demo page with the inserted skip link (element 9) holding the focus.\<close>

definition page_with_skipLink :: page where
  "page_with_skipLink =
     demo_page\<lparr>focusable := (\<lambda>e. e = 2 \<or> e = 3 \<or> e = 9),
               activeElement := Some 9,
               body_children := [9, 1, 3]\<rparr>"

text \<open>The header correction as the specification words it: 80 below the breakpoint 768,
  0 otherwise. Used only to compare with \<open>anchor_click\<close>.\<close>

definition claimed_headerOffset :: "int \<Rightarrow> int" where
  "claimed_headerOffset width = (if width < 768 then 80 else 0)"

section \<open>Visibility observers\<close>

text \<open>An entry of an IntersectionObserver batch: the observed element and whether it
  intersects.\<close>

record entry =
  target :: elem
  isIntersecting :: bool

subsection \<open>Section Watcher (initNavigation)\<close>








subsection \<open>Entrance Animator (initIntersectionObserver)\<close>

record style =
  opacity :: string
  transform :: string
  transition :: string

text \<open>The timers the fade observer's callback sets for a batch, in the order they are set:
  the delay in milliseconds and the element the timer will reveal. The index is the one
  \<^verbatim>\<open>forEach\<close> passes: the position of the entry in the batch. (The delays stay below the
  timer's 32-bit limit for any batch of fewer than 21 million entries.)\<close>

definition fadeObserver_callback :: "entry list \<Rightarrow> (nat \<times> elem) list" where
  "fadeObserver_callback entries =
     concat (map (\<lambda>(index, e). if isIntersecting e then [(index * 100, target e)] else [])
               (enumerate 0 entries))"

text \<open>What a timer does when it fires.\<close>

definition reveal :: "elem \<Rightarrow> (elem \<Rightarrow> style) \<Rightarrow> (elem \<Rightarrow> style)" where
  "reveal el st = st(el := (st el)\<lparr>opacity := ''1'', transform := ''translateY(0)''\<rparr>)"

text \<open>The styles \<open>t\<close> milliseconds after the callback ran on a batch: the timers with a delay
  of at most \<open>t\<close> have fired.\<close>

definition fade_after :: "nat \<Rightarrow> entry list \<Rightarrow> (elem \<Rightarrow> style) \<Rightarrow> (elem \<Rightarrow> style)" where
  "fade_after t entries st =
     fold (\<lambda>(delay, el) st'. if delay \<le> t then reveal el st' else st')
       (fadeObserver_callback entries) st"

text \<open>The index the specification words: the position of entry \<open>i\<close> among the intersecting
  entries of the batch. Used only to compare with \<open>fadeObserver_callback\<close>.\<close>

definition index_among_intersecting :: "entry list \<Rightarrow> nat \<Rightarrow> nat" where
  "index_among_intersecting entries i = length (filter isIntersecting (take i entries))"


section \<open>PortfolioUtils.debounce\<close>

text \<open>
  The state of one debounced wrapper and of the browser's timer table, over a clock counted
  in milliseconds: the pending timers (identifier, time due, the arguments its \<^verbatim>\<open>later\<close>
  closure captured), the next timer identifier, the closure variable \<^verbatim>\<open>timeout\<close>
  (\<open>None\<close> while undefined) and the invocations of the wrapped function so far (time and
  arguments), oldest first.
\<close>

record 'a debounce_state =
  timers :: "(nat \<times> nat \<times> 'a) list"
  next_id :: nat
  timeout :: "nat option"
  invocations :: "(nat \<times> 'a) list"

definition debounce_init :: "'a debounce_state" where
  "debounce_init = \<lparr>timers = [], next_id = 0, timeout = None, invocations = []\<rparr>"

definition cancel :: "nat \<Rightarrow> (nat \<times> nat \<times> 'a) list \<Rightarrow> (nat \<times> nat \<times> 'a) list" where
  "cancel i ts = filter (\<lambda>tm. fst tm \<noteq> i) ts"

text \<open>\<^verbatim>\<open>clearTimeout(undefined)\<close> does nothing.\<close>

definition clearTimeout :: "nat option \<Rightarrow> 'a debounce_state \<Rightarrow> 'a debounce_state" where
  "clearTimeout h s = (case h of None \<Rightarrow> s | Some i \<Rightarrow> s\<lparr>timers := cancel i (timers s)\<rparr>)"

text \<open>The delay the browser's timer runs for a requested delay of \<open>ms\<close> milliseconds:
  the argument of \<^verbatim>\<open>setTimeout\<close> is converted to a signed 32-bit integer (modulo \<open>2^32\<close>),
  and a negative result counts as 0. A request of \<open>2^31\<close> ms or more does not wait that
  long.\<close>

definition timer_delay :: "nat \<Rightarrow> nat" where
  "timer_delay ms = (let r = ms mod 2 ^ 32 in if r < 2 ^ 31 then r else 0)"

text \<open>\<^verbatim>\<open>setTimeout(later, ms)\<close> called at time \<open>now\<close>, where \<open>later\<close> captured \<open>args\<close>.\<close>

definition setTimeout ::
  "nat \<Rightarrow> nat \<Rightarrow> 'a \<Rightarrow> 'a debounce_state \<Rightarrow> nat \<times> 'a debounce_state" where
  "setTimeout now ms args s =
     (next_id s,
      s\<lparr>timers := timers s @ [(next_id s, now + timer_delay ms, args)],
        next_id := Suc (next_id s)\<rparr>)"

text \<open>The closure \<^verbatim>\<open>later\<close> of a call with arguments \<open>args\<close>, run at time \<open>now\<close>.\<close>

definition later :: "nat \<Rightarrow> 'a \<Rightarrow> 'a debounce_state \<Rightarrow> 'a debounce_state" where
  "later now args s =
     (let s1 = clearTimeout (timeout s) s
      in s1\<lparr>invocations := invocations s1 @ [(now, args)]\<rparr>)"

text \<open>\<^verbatim>\<open>executedFunction(...args)\<close> called at time \<open>now\<close>.\<close>

definition executedFunction :: "nat \<Rightarrow> nat \<Rightarrow> 'a \<Rightarrow> 'a debounce_state \<Rightarrow> 'a debounce_state" where
  "executedFunction wait now args s =
     (let s1 = clearTimeout (timeout s) s;
          (i, s2) = setTimeout now wait args s1
      in s2\<lparr>timeout := Some i\<rparr>)"

text \<open>The pending timer that is due first (the one set first among equals).\<close>

fun earliest :: "(nat \<times> nat \<times> 'a) list \<Rightarrow> (nat \<times> nat \<times> 'a) option" where
  "earliest [] = None"
| "earliest (x # xs) =
     (case earliest xs of
        None \<Rightarrow> Some x
      | Some y \<Rightarrow> if fst (snd x) \<le> fst (snd y) then Some x else Some y)"

lemma earliest_in_set: "earliest ts = Some tm \<Longrightarrow> tm \<in> set ts"
  by (induction ts arbitrary: tm) (auto split: option.splits if_splits)

lemma cancel_shorter: "tm \<in> set ts \<Longrightarrow> length (cancel (fst tm) ts) < length ts"
  unfolding cancel_def by (induction ts) (auto simp: less_Suc_eq_le)

lemma later_timers_le: "length (timers (later now a s)) \<le> length (timers s)"
  by (simp add: later_def clearTimeout_def cancel_def Let_def split: option.splits)

text \<open>The event loop up to time \<open>t\<close>: every timer due by \<open>t\<close> fires at its due time, the
  earliest first; a fired timer leaves the table before its closure runs.\<close>

function run_until :: "nat \<Rightarrow> 'a debounce_state \<Rightarrow> 'a debounce_state" where
  "run_until t s =
     (case earliest (timers s) of
        None \<Rightarrow> s
      | Some tm \<Rightarrow>
          if fst (snd tm) \<le> t
          then run_until t (later (fst (snd tm)) (snd (snd tm))
                              (s\<lparr>timers := cancel (fst tm) (timers s)\<rparr>))
          else s)"
  by pat_completeness auto

termination run_until
proof (relation "measure (\<lambda>(t, s). length (timers s))")
  show "wf (measure (\<lambda>(t, s). length (timers s)))" by simp
next
  fix t :: nat and s :: "'a debounce_state" and tm
  assume e: "earliest (timers s) = Some tm" and "fst (snd tm) \<le> t"
  have "length (timers (later (fst (snd tm)) (snd (snd tm))
          (s\<lparr>timers := cancel (fst tm) (timers s)\<rparr>))) \<le> length (cancel (fst tm) (timers s))"
    using later_timers_le [of "fst (snd tm)" "snd (snd tm)"
        "s\<lparr>timers := cancel (fst tm) (timers s)\<rparr>"] by simp
  also have "\<dots> < length (timers s)"
    using e by (intro cancel_shorter earliest_in_set)
  finally show "((t, later (fst (snd tm)) (snd (snd tm))
                    (s\<lparr>timers := cancel (fst tm) (timers s)\<rparr>)), (t, s))
                \<in> measure (\<lambda>(t, s). length (timers s))"
    by simp
qed

declare run_until.simps [simp del]

text \<open>The event loop up to a call at time \<open>t\<close>: the timers due before \<open>t\<close> have fired. A
  timer due at \<open>t\<close> itself has not: calls at the same time run in one task, and no timer
  fires inside a task.\<close>

definition run_before :: "nat \<Rightarrow> 'a debounce_state \<Rightarrow> 'a debounce_state" where
  "run_before t s = (if t = 0 then s else run_until (t - 1) s)"

text \<open>A sequence of calls of the wrapper, each with its time and arguments, in the order
  of time.\<close>

fun debounced_calls :: "nat \<Rightarrow> (nat \<times> 'a) list \<Rightarrow> 'a debounce_state \<Rightarrow> 'a debounce_state" where
  "debounced_calls wait [] s = s"
| "debounced_calls wait ((t, args) # cs) s =
     debounced_calls wait cs (executedFunction wait t args (run_before t s))"

text \<open>Consecutive calls are in the order of time and less than \<open>wait\<close> apart.\<close>

fun gaps_below :: "nat \<Rightarrow> (nat \<times> 'a) list \<Rightarrow> bool" where
  "gaps_below wait (c1 # c2 # cs) =
     (fst c1 \<le> fst c2 \<and> fst c2 - fst c1 < wait \<and> gaps_below wait (c2 # cs))"
| "gaps_below wait cs = True"

section \<open>Service-worker registration\<close>

text \<open>
  What the script's last statement reads of its environment: whether \<^verbatim>\<open>'serviceWorker' in
  navigator\<close> holds and the user-agent string. \<open>hostname\<close> is \<^verbatim>\<open>location.hostname\<close>, the host
  the page is served from; the script never reads it.
\<close>

record environment =
  serviceWorker_in_navigator :: bool
  userAgent :: string
  hostname :: string

text \<open>\<^verbatim>\<open>String.prototype.includes\<close>: \<open>t\<close> occurs in \<open>s\<close> as a contiguous substring.\<close>

fun includes_str :: "string \<Rightarrow> string \<Rightarrow> bool" where
  "includes_str [] t = (t = [])"
| "includes_str (c # cs) t = (take (length t) (c # cs) = t \<or> includes_str cs t)"

datatype registration_result = Resolved string | Rejected string

text \<open>The effects of the statement once the load event has fired: the script URLs passed
  to \<^verbatim>\<open>navigator.serviceWorker.register\<close> and the lines written to the console.\<close>

record sw_effects =
  registered :: "string list"
  console :: "string list"

definition load_listener_added :: "environment \<Rightarrow> bool" where
  "load_listener_added env =
     (serviceWorker_in_navigator env \<and> \<not> includes_str (userAgent env) ''localhost'')"

definition register_on_load :: "environment \<Rightarrow> registration_result \<Rightarrow> sw_effects" where
  "register_on_load env res =
     (if load_listener_added env then
        \<lparr>registered = [''/sw.js''],
         console = [case res of
                      Resolved registration \<Rightarrow> ''SW registered:  '' @ registration
                    | Rejected registrationError \<Rightarrow>
                        ''SW registration failed:  '' @ registrationError]\<rparr>
      else \<lparr>registered = [], console = []\<rparr>)"

text \<open>A browser with service workers, an ordinary user-agent string, showing the page
  from a development server on localhost.\<close>

definition localhost_browser :: environment where
  "localhost_browser =
     \<lparr>serviceWorker_in_navigator = True,
      userAgent = ''Mozilla/5.0 (X11; Linux x86_64) Firefox/128.0'',
      hostname = ''localhost''\<rparr>"

section \<open>Theme: proofs\<close>

lemma toggleTheme_data_theme:
  "data_theme (toggleTheme s) =
     Some (if data_theme s = Some ''dark'' then ''light'' else ''dark'')"
  by (simp add: toggleTheme_def announceThemeChange_def Let_def)

lemma toggleTheme_storage:
  "localStorage (toggleTheme s) =
     (localStorage s)(''theme'' \<mapsto> (if data_theme s = Some ''dark'' then ''light'' else ''dark''))"
  by (simp add: toggleTheme_def announceThemeChange_def Let_def)

lemma toggles_from_dark:
  "data_theme s = Some ''dark'' \<Longrightarrow>
   data_theme ((toggleTheme ^^ n) s) = Some (if even n then ''dark'' else ''light'')"
  by (induction n) (simp_all add: toggleTheme_data_theme)

lemma toggles_storage_follows:
  "0 < n \<Longrightarrow> localStorage ((toggleTheme ^^ n) s) ''theme'' = data_theme ((toggleTheme ^^ n) s)"
  by (cases n) (simp_all add: toggleTheme_data_theme toggleTheme_storage)

text \<open>
  C2. For a stored theme that is absent, "light" or "dark", \<open>initTheme\<close> sets the body's
  \<^verbatim>\<open>data-theme\<close> to the stored value, or to "dark" when nothing is stored. Starting from a
  body attribute "dark", after \<open>n\<close> calls of \<open>toggleTheme\<close> the attribute is "dark" for even
  \<open>n\<close> and "light" for odd \<open>n\<close>; the persisted value is the same string after every toggle
  (\<open>n > 0\<close>), and for \<open>n = 0\<close> it is what was stored before ("dark" when "dark" was stored).
\<close>

theorem theme_lifecycle:
  "(stored \<in> {None, Some ''light'', Some ''dark''} \<longrightarrow>
      localStorage s ''theme'' = stored \<longrightarrow>
      data_theme (initTheme s) = Some (case stored of None \<Rightarrow> ''dark'' | Some v \<Rightarrow> v))
   \<and> (data_theme s = Some ''dark'' \<longrightarrow>
        data_theme ((toggleTheme ^^ n) s) = Some (if even n then ''dark'' else ''light'')
      \<and> (0 < n \<or> localStorage s ''theme'' = Some ''dark'' \<longrightarrow>
           localStorage ((toggleTheme ^^ n) s) ''theme''
             = Some (if even n then ''dark'' else ''light'')))"
proof (intro conjI impI)
  assume "stored \<in> {None, Some ''light'', Some ''dark''}" and "localStorage s ''theme'' = stored"
  then show "data_theme (initTheme s) = Some (case stored of None \<Rightarrow> ''dark'' | Some v \<Rightarrow> v)"
    by (auto simp: initTheme_def or_default_def)
next
  assume d: "data_theme s = Some ''dark''"
  then show "data_theme ((toggleTheme ^^ n) s) = Some (if even n then ''dark'' else ''light'')"
    by (rule toggles_from_dark)
  assume st: "0 < n \<or> localStorage s ''theme'' = Some ''dark''"
  show "localStorage ((toggleTheme ^^ n) s) ''theme''
          = Some (if even n then ''dark'' else ''light'')"
  proof (cases "0 < n")
    case True
    then show ?thesis
      using toggles_storage_follows [of n s] toggles_from_dark [OF d, of n] by simp
  next
    case False
    with st show ?thesis by simp
  qed
qed

theorem theme_lifecycle_witness:
  "data_theme (initTheme \<lparr>data_theme = None, localStorage = Map.empty, announcements = []\<rparr>)
     = Some ''dark''
   \<and> data_theme (initTheme \<lparr>data_theme = None, localStorage = [''theme'' \<mapsto> ''light''],
        announcements = []\<rparr>) = Some ''light''
   \<and> data_theme ((toggleTheme ^^ 3)
        \<lparr>data_theme = Some ''dark'', localStorage = Map.empty, announcements = []\<rparr>)
       = Some ''light''
   \<and> localStorage ((toggleTheme ^^ 3)
        \<lparr>data_theme = Some ''dark'', localStorage = Map.empty, announcements = []\<rparr>) ''theme''
       = Some ''light''"
  using theme_lifecycle [of None
          "\<lparr>data_theme = None, localStorage = Map.empty, announcements = []\<rparr>" 0]
        theme_lifecycle [of "Some ''light''"
          "\<lparr>data_theme = None, localStorage = [''theme'' \<mapsto> ''light''], announcements = []\<rparr>" 0]
        theme_lifecycle [of None
          "\<lparr>data_theme = Some ''dark'', localStorage = Map.empty, announcements = []\<rparr>" 3]
  by simp

text \<open>
  C10. Whatever the current \<^verbatim>\<open>data-theme\<close> attribute is (absent, or any string),
  \<open>toggleTheme\<close> sets both the attribute and the persisted value to "light" when it was
  "dark" and to "dark" otherwise, and leaves every other storage key alone; \<open>initTheme\<close>
  writes nothing to storage. So after one or more toggles the attribute and the persisted
  theme are "light" or "dark".
\<close>

theorem toggleTheme_normalizes:
  "data_theme (toggleTheme s) = Some (if data_theme s = Some ''dark'' then ''light'' else ''dark'')
   \<and> localStorage (toggleTheme s) =
       (localStorage s)(''theme'' \<mapsto> (if data_theme s = Some ''dark'' then ''light'' else ''dark''))
   \<and> localStorage (initTheme s) = localStorage s
   \<and> data_theme ((toggleTheme ^^ Suc n) s) \<in> {Some ''light'', Some ''dark''}
   \<and> localStorage ((toggleTheme ^^ Suc n) s) ''theme'' \<in> {Some ''light'', Some ''dark''}"
  by (simp add: toggleTheme_data_theme toggleTheme_storage initTheme_def)

section \<open>Navigation Controller: proofs\<close>

text \<open>
  C1. The open marker, \<^verbatim>\<open>aria-expanded\<close> and \<^verbatim>\<open>aria-hidden\<close> do not stay consistent: on the
  demo page (consistent, menu closed) a click on the toggle button opens the menu and
  leaves the three consistent, and a following click outside the navbar removes the
  marker and sets \<^verbatim>\<open>aria-expanded\<close> to "false" but leaves \<^verbatim>\<open>aria-hidden\<close> at "false".
\<close>

theorem outside_click_leaves_aria_hidden:
  "aria_consistent demo_page
   \<and> menu_state (click_on_toggle demo_page) = (True, Some ''true'', Some ''false'')
   \<and> aria_consistent (click_on_toggle demo_page)
   \<and> menu_state (document_click 3 (click_on_toggle demo_page))
       = (False, Some ''false'', Some ''false'')
   \<and> \<not> aria_consistent (document_click 3 (click_on_toggle demo_page))"
  by (simp add: aria_consistent_def menu_state_def menu_open_def aria_expanded_def
      aria_hidden_def click_on_toggle_def document_click_def mobileToggle_click_def
      updateAriaAttributes_def classList_toggle_def classList_contains_def classList_add_def
      classList_remove_def setAttribute_def toString_def demo_page_def Let_def)

lemmas page_ops =
  classList_contains_def classList_add_def classList_remove_def classList_toggle_def
  setAttribute_def focus_def scrollTo_def

lemma close_navbar_closed: "\<not> menu_open p \<Longrightarrow> close_navbar p = p"
  by (simp add: menu_open_def close_navbar_def split: option.splits)

lemma close_navbar_not_open: "\<not> menu_open (close_navbar p)"
  by (simp add: menu_open_def close_navbar_def page_ops split: option.splits)

lemma document_click_closed: "\<not> menu_open p \<Longrightarrow> document_click t p = p"
  by (simp add: menu_open_def document_click_def split: option.splits)

lemma document_click_twice: "document_click t (document_click t p) = document_click t p"
  by (simp add: document_click_def page_ops Let_def split: option.splits)

lemma document_keydown_closed: "\<not> menu_open p \<Longrightarrow> document_keydown k p = p"
  by (simp add: menu_open_def document_keydown_def split: option.splits)

lemma document_keydown_twice:
  "document_keydown k (document_keydown k p) = document_keydown k p"
  by (simp add: document_keydown_def page_ops Let_def split: option.splits)

lemma anchor_click_top:
  "h = ''#'' \<or> h = ''#page-top'' \<Longrightarrow> anchor_click h p = (Inr True, scrollTo 0 p)"
  by (auto simp: anchor_click_def)

lemma anchor_click_invalid:
  "h \<noteq> ''#'' \<Longrightarrow> h \<noteq> ''#page-top'' \<Longrightarrow> \<not> selector_valid p h \<Longrightarrow>
   anchor_click h p = (Inl SyntaxError, p)"
  by (simp add: anchor_click_def document_querySelector_def)

lemma anchor_click_null:
  "h \<noteq> ''#'' \<Longrightarrow> h \<noteq> ''#page-top'' \<Longrightarrow> selector_valid p h \<Longrightarrow>
   querySelector p h = None \<Longrightarrow> anchor_click h p = (Inr False, p)"
  by (simp add: anchor_click_def document_querySelector_def)

lemma anchor_click_found:
  "h \<noteq> ''#'' \<Longrightarrow> h \<noteq> ''#page-top'' \<Longrightarrow> selector_valid p h \<Longrightarrow>
   querySelector p h = Some el \<Longrightarrow>
   anchor_click h p =
     (Inr True,
      focus el (close_navbar
        (scrollTo (offsetTop p el - (if innerWidth p \<le> 768 then 80 else 0)) p)))"
  by (simp add: anchor_click_def document_querySelector_def Let_def)

lemma menu_state_focus: "menu_state (focus e p) = menu_state p"
  by (simp add: menu_state_def menu_open_def aria_expanded_def aria_hidden_def page_ops
      split: option.splits)

lemma menu_state_scrollTo: "menu_state (scrollTo y p) = menu_state p"
  by (simp add: menu_state_def menu_open_def aria_expanded_def aria_hidden_def page_ops
      split: option.splits)

lemma menu_open_scrollTo: "menu_open (scrollTo y p) = menu_open p"
  by (simp add: menu_open_def page_ops split: option.splits)

lemma menu_open_focus: "menu_open (focus e p) = menu_open p"
  by (simp add: menu_open_def page_ops split: option.splits)

lemma static_fields:
  "querySelector (focus e p) = querySelector p"
  "querySelector (scrollTo y p) = querySelector p"
  "querySelector (close_navbar p) = querySelector p"
  "selector_valid (focus e p) = selector_valid p"
  "selector_valid (scrollTo y p) = selector_valid p"
  "selector_valid (close_navbar p) = selector_valid p"
  by (simp_all add: close_navbar_def page_ops split: option.splits)

lemma anchor_click_closed:
  assumes "\<not> menu_open p"
  shows "menu_state (snd (anchor_click h p)) = menu_state p"
proof -
  consider "h = ''#'' \<or> h = ''#page-top''"
    | "h \<noteq> ''#''" "h \<noteq> ''#page-top''" "\<not> selector_valid p h"
    | "h \<noteq> ''#''" "h \<noteq> ''#page-top''" "selector_valid p h" "querySelector p h = None"
    | el where "h \<noteq> ''#''" "h \<noteq> ''#page-top''" "selector_valid p h"
        "querySelector p h = Some el"
    by (cases "querySelector p h") auto
  then show ?thesis
  proof cases
    case 1
    then show ?thesis by (simp add: anchor_click_top menu_state_scrollTo)
  next
    case 2
    then show ?thesis by (simp add: anchor_click_invalid)
  next
    case 3
    then show ?thesis by (simp add: anchor_click_null)
  next
    case 4
    let ?q = "scrollTo (offsetTop p el - (if innerWidth p \<le> 768 then 80 else 0)) p"
    have "\<not> menu_open ?q" using assms by (simp add: menu_open_scrollTo)
    then have "close_navbar ?q = ?q" by (rule close_navbar_closed)
    with 4 show ?thesis
      by (simp add: anchor_click_found menu_state_focus menu_state_scrollTo)
  qed
qed

lemma anchor_click_twice:
  "menu_state (snd (anchor_click h (snd (anchor_click h p))))
     = menu_state (snd (anchor_click h p))"
proof -
  consider "h = ''#'' \<or> h = ''#page-top''"
    | "h \<noteq> ''#''" "h \<noteq> ''#page-top''" "\<not> selector_valid p h"
    | "h \<noteq> ''#''" "h \<noteq> ''#page-top''" "selector_valid p h" "querySelector p h = None"
    | el where "h \<noteq> ''#''" "h \<noteq> ''#page-top''" "selector_valid p h"
        "querySelector p h = Some el"
    by (cases "querySelector p h") auto
  then show ?thesis
  proof cases
    case 1
    then show ?thesis by (simp add: anchor_click_top menu_state_scrollTo)
  next
    case 2
    then show ?thesis by (simp add: anchor_click_invalid)
  next
    case 3
    then show ?thesis by (simp add: anchor_click_null)
  next
    case 4
    let ?q = "snd (anchor_click h p)"
    have "\<not> menu_open ?q"
      using 4 by (simp add: anchor_click_found menu_open_focus close_navbar_not_open)
    then show ?thesis by (rule anchor_click_closed)
  qed
qed

text \<open>
  C9. Each menu-close operation (the document's click listener, the Escape key listener,
  the resize handler, the close inside the anchor click) leaves a page with a closed menu
  as it is (the anchor click leaves its menu state as it is), and applying the operation
  twice gives the same as applying it once.
\<close>

theorem close_idempotent:
  "(\<not> menu_open p \<longrightarrow>
       document_click t p = p \<and> document_keydown k p = p \<and> resize_handler p = p
     \<and> close_navbar p = p \<and> menu_state (snd (anchor_click h p)) = menu_state p)
   \<and> document_click t (document_click t p) = document_click t p
   \<and> document_keydown k (document_keydown k p) = document_keydown k p
   \<and> resize_handler (resize_handler p) = resize_handler p
   \<and> close_navbar (close_navbar p) = close_navbar p
   \<and> menu_state (snd (anchor_click h (snd (anchor_click h p))))
       = menu_state (snd (anchor_click h p))"
proof (intro conjI impI)
  assume c: "\<not> menu_open p"
  show "document_click t p = p" using c by (rule document_click_closed)
  show "document_keydown k p = p" using c by (rule document_keydown_closed)
  show "close_navbar p = p" using c by (rule close_navbar_closed)
  then show "resize_handler p = p" by (simp add: resize_handler_def)
  show "menu_state (snd (anchor_click h p)) = menu_state p"
    using c by (rule anchor_click_closed)
next
  show "document_click t (document_click t p) = document_click t p"
    by (rule document_click_twice)
  show "document_keydown k (document_keydown k p) = document_keydown k p"
    by (rule document_keydown_twice)
  show cc: "close_navbar (close_navbar p) = close_navbar p"
    by (simp add: close_navbar_closed close_navbar_not_open)
  show "resize_handler (resize_handler p) = resize_handler p"
  proof (cases "innerWidth p > 768")
    case True
    then have "innerWidth (close_navbar p) > 768"
      by (simp add: close_navbar_def page_ops split: option.splits)
    with True cc show ?thesis by (simp add: resize_handler_def)
  next
    case False
    then show ?thesis by (simp add: resize_handler_def)
  qed
  show "menu_state (snd (anchor_click h (snd (anchor_click h p))))
          = menu_state (snd (anchor_click h p))"
    by (rule anchor_click_twice)
qed

theorem close_idempotent_witness:
  "\<not> menu_open demo_page
   \<and> document_click 3 demo_page = demo_page
   \<and> document_keydown ''Escape'' demo_page = demo_page
   \<and> resize_handler demo_page = demo_page
   \<and> menu_state (snd (anchor_click ''#about'' demo_page)) = menu_state demo_page
   \<and> document_click 3 (document_click 3 (click_on_toggle demo_page))
       = document_click 3 (click_on_toggle demo_page)"
proof -
  have c: "\<not> menu_open demo_page"
    by (simp add: menu_open_def demo_page_def classList_contains_def)
  show ?thesis
    using c close_idempotent [of demo_page 3 "''Escape''" "''#about''"]
      close_idempotent [of "click_on_toggle demo_page" 3 "''Escape''" "''#about''"]
    by simp
qed

section \<open>Scroll Router: proofs\<close>

lemma close_navbar_fields:
  "scrollTo_calls (close_navbar p) = scrollTo_calls p"
  "querySelector (close_navbar p) = querySelector p"
  "focusable (close_navbar p) = focusable p"
  "activeElement (close_navbar p) = activeElement p"
  by (simp_all add: close_navbar_def page_ops split: option.splits)

lemma focus_fields:
  "scrollTo_calls (focus e p) = scrollTo_calls p"
  "activeElement (focus e p) = (if focusable p e then Some e else activeElement p)"
  by (simp_all add: focus_def)

text \<open>
  C3, as the specification words it, fails in three places. At a viewport exactly 768
  wide, which is not below the breakpoint, the click on the anchor \<^verbatim>\<open>#about\<close> of the demo
  page (section at offset 600) scrolls to 520, not to 600. On the page whose section
  \<^verbatim>\<open>#about\<close> is a plain section, the click scrolls and cancels the default navigation, and
  the keyboard focus does not move to the section. And for the href \<^verbatim>\<open>#1abc\<close>, which names
  the id of an element of the demo page and is no valid selector, the handler ends in a
  SyntaxError with nothing cancelled and nothing scrolled.
\<close>

theorem anchor_click_claim_counterexample:
  "innerWidth demo_page = 768
   \<and> querySelector demo_page ''#about'' = Some 3
   \<and> scrollTo_calls (snd (anchor_click ''#about'' demo_page)) = [520]
   \<and> scrollTo_calls (snd (anchor_click ''#about'' demo_page))
       \<noteq> [offsetTop demo_page 3 - claimed_headerOffset (innerWidth demo_page)]
   \<and> querySelector page_plain_section ''#about'' = Some 3
   \<and> fst (anchor_click ''#about'' page_plain_section) = Inr True
   \<and> activeElement (snd (anchor_click ''#about'' page_plain_section)) \<noteq> Some 3
   \<and> getElementById demo_page ''1abc'' = Some 4
   \<and> anchor_click ''#1abc'' demo_page = (Inl SyntaxError, demo_page)"
  by (simp add: anchor_click_def document_querySelector_def close_navbar_fields focus_fields
      scrollTo_def claimed_headerOffset_def page_plain_section_def demo_page_def Let_def)

text \<open>
  C3, amended. A click on an anchor with href "#" or "#page-top" cancels the default
  navigation and scrolls to offset 0. For any other href that is a valid selector, if an
  element matches it, the default navigation is cancelled, the page scrolls to the
  element's offset minus a header correction that is 80 when the viewport is at most 768
  wide and 0 when it is wider, the menu is closed, and the keyboard focus moves to the
  element when the element can take focus (it stays where it was when the element
  cannot); if no element matches, nothing is done and the default behaviour stays. For an
  href that is no valid selector the handler throws a SyntaxError and changes nothing.
\<close>

theorem anchor_click_destination:
  "(h = ''#'' \<or> h = ''#page-top'' \<longrightarrow> anchor_click h p = (Inr True, scrollTo 0 p))
   \<and> (h \<noteq> ''#'' \<longrightarrow> h \<noteq> ''#page-top'' \<longrightarrow> selector_valid p h \<longrightarrow>
       querySelector p h = Some el \<longrightarrow>
         fst (anchor_click h p) = Inr True
       \<and> scrollTo_calls (snd (anchor_click h p))
           = scrollTo_calls p @ [offsetTop p el - (if innerWidth p \<le> 768 then 80 else 0)]
       \<and> \<not> menu_open (snd (anchor_click h p))
       \<and> (focusable p el \<longrightarrow> activeElement (snd (anchor_click h p)) = Some el)
       \<and> (\<not> focusable p el \<longrightarrow> activeElement (snd (anchor_click h p)) = activeElement p))
   \<and> (h \<noteq> ''#'' \<longrightarrow> h \<noteq> ''#page-top'' \<longrightarrow> selector_valid p h \<longrightarrow>
       querySelector p h = None \<longrightarrow> anchor_click h p = (Inr False, p))
   \<and> (h \<noteq> ''#'' \<longrightarrow> h \<noteq> ''#page-top'' \<longrightarrow> \<not> selector_valid p h \<longrightarrow>
         anchor_click h p = (Inl SyntaxError, p))"
proof (intro conjI impI)
  assume "h = ''#'' \<or> h = ''#page-top''"
  then show "anchor_click h p = (Inr True, scrollTo 0 p)"
    by (rule anchor_click_top)
next
  assume h: "h \<noteq> ''#''" "h \<noteq> ''#page-top''" and v: "selector_valid p h"
    and q: "querySelector p h = Some el"
  let ?y = "offsetTop p el - (if innerWidth p \<le> 768 then 80 else 0)"
  have r: "anchor_click h p = (Inr True, focus el (close_navbar (scrollTo ?y p)))"
    using h v q by (rule anchor_click_found)
  have f: "focusable (close_navbar (scrollTo ?y p)) = focusable p"
    "activeElement (close_navbar (scrollTo ?y p)) = activeElement p"
    by (simp_all add: close_navbar_fields scrollTo_def)
  show "fst (anchor_click h p) = Inr True" by (simp add: r)
  show "scrollTo_calls (snd (anchor_click h p)) = scrollTo_calls p @ [?y]"
    by (simp add: r focus_fields close_navbar_fields scrollTo_def)
  show "\<not> menu_open (snd (anchor_click h p))"
    by (simp add: r menu_open_focus close_navbar_not_open)
  show "activeElement (snd (anchor_click h p)) = Some el" if "focusable p el"
    using that by (simp add: r focus_fields f)
  show "activeElement (snd (anchor_click h p)) = activeElement p" if "\<not> focusable p el"
    using that by (simp add: r focus_fields f)
next
  assume "h \<noteq> ''#''" "h \<noteq> ''#page-top''" "selector_valid p h" "querySelector p h = None"
  then show "anchor_click h p = (Inr False, p)"
    by (rule anchor_click_null)
next
  assume "h \<noteq> ''#''" "h \<noteq> ''#page-top''" "\<not> selector_valid p h"
  then show "anchor_click h p = (Inl SyntaxError, p)"
    by (rule anchor_click_invalid)
qed

theorem anchor_click_destination_witness:
  "anchor_click ''#page-top'' demo_page = (Inr True, scrollTo 0 demo_page)
   \<and> fst (anchor_click ''#about'' demo_page) = Inr True
   \<and> scrollTo_calls (snd (anchor_click ''#about'' (demo_page\<lparr>innerWidth := 769\<rparr>))) = [600]
   \<and> scrollTo_calls (snd (anchor_click ''#about'' demo_page)) = [520]
   \<and> activeElement (snd (anchor_click ''#about'' demo_page)) = Some 3
   \<and> activeElement (snd (anchor_click ''#about'' page_plain_section)) = None
   \<and> anchor_click ''#contact'' demo_page = (Inr False, demo_page)
   \<and> anchor_click ''#1abc'' demo_page = (Inl SyntaxError, demo_page)"
proof -
  have q: "querySelector demo_page ''#about'' = Some 3"
    "querySelector (demo_page\<lparr>innerWidth := 769\<rparr>) ''#about'' = Some 3"
    "querySelector page_plain_section ''#about'' = Some 3"
    "querySelector demo_page ''#contact'' = None"
    by (simp_all add: demo_page_def page_plain_section_def)
  have v: "offsetTop demo_page 3 = 600" "innerWidth demo_page = 768"
    "scrollTo_calls demo_page = []" "focusable demo_page 3"
    "\<not> focusable page_plain_section 3" "activeElement page_plain_section = None"
    "selector_valid demo_page ''#about''" "selector_valid page_plain_section ''#about''"
    "selector_valid demo_page ''#contact''" "\<not> selector_valid demo_page ''#1abc''"
    by (simp_all add: demo_page_def page_plain_section_def)
  show ?thesis
    using anchor_click_destination [of "''#page-top''" demo_page 0]
      anchor_click_destination [of "''#about''" demo_page 3]
      anchor_click_destination [of "''#about''" "demo_page\<lparr>innerWidth := 769\<rparr>" 3]
      anchor_click_destination [of "''#about''" page_plain_section 3]
      anchor_click_destination [of "''#contact''" demo_page 0]
      anchor_click_destination [of "''#1abc''" demo_page 0]
    by (simp add: q v)
qed

section \<open>The skip link: proof\<close>

text \<open>
  C5. A handler can throw when an expected element is absent: on a page with no element
  \<^verbatim>\<open>#about\<close> the click listener of the skip link ends in a TypeError, before it removes
  the skip link from the body.
\<close>

theorem skipLink_click_throws:
  "querySelector page_without_about ''#about'' = None
   \<and> 9 \<in> set (body_children page_without_about)
   \<and> skipLink_click 9 page_without_about = Inl TypeError"
  by (simp add: skipLink_click_def page_without_about_def demo_page_def)

text \<open>With a section \<^verbatim>\<open>#about\<close> that can take focus, the focus leaves the skip link, its
  blur listener removes it from the body, and the \<^verbatim>\<open>removeChild\<close> that follows throws.\<close>

lemma skipLink_click_after_blur:
  "skipLink_click 9 page_with_skipLink = Inl NotFoundError"
  by (simp add: skipLink_click_def skipLink_blur_def removeChild_def focus_def
      page_with_skipLink_def demo_page_def Let_def)

section \<open>Section Watcher: proofs\<close>

















section \<open>Entrance Animator: proofs\<close>

lemma fade_timers_set:
  "(d, el) \<in> set (fadeObserver_callback es) =
     (\<exists>i<length es. isIntersecting (es ! i) \<and> d = i * 100 \<and> el = target (es ! i))"
proof
  assume "(d, el) \<in> set (fadeObserver_callback es)"
  then obtain i e where "(i, e) \<in> set (enumerate 0 es)" "isIntersecting e"
    "d = i * 100" "el = target e"
    by (auto simp: fadeObserver_callback_def split: if_splits)
  then show "\<exists>i<length es. isIntersecting (es ! i) \<and> d = i * 100 \<and> el = target (es ! i)"
    by (auto simp: in_set_enumerate_eq)
next
  assume "\<exists>i<length es. isIntersecting (es ! i) \<and> d = i * 100 \<and> el = target (es ! i)"
  then obtain i where i: "i < length es" "isIntersecting (es ! i)" "d = i * 100"
    "el = target (es ! i)"
    by auto
  then have "(i, es ! i) \<in> set (enumerate 0 es)"
    by (simp add: in_set_enumerate_eq)
  with i show "(d, el) \<in> set (fadeObserver_callback es)"
    unfolding fadeObserver_callback_def by (auto intro!: bexI [of _ "(i, es ! i)"])
qed

lemma fade_timers_length_from:
  "length (concat (map (\<lambda>(index, e). if isIntersecting e then [(index * 100, target e)] else [])
             (enumerate n es))) = length (filter isIntersecting es)"
  by (induction es arbitrary: n) simp_all

lemma fold_reveal:
  "fold (\<lambda>(delay, el) st'. if delay \<le> t then reveal el st' else st') ts st x =
     (if \<exists>d. (d, x) \<in> set ts \<and> d \<le> t
      then (st x)\<lparr>opacity := ''1'', transform := ''translateY(0)''\<rparr> else st x)"
proof (induction ts arbitrary: st)
  case Nil
  then show ?case by simp
next
  case (Cons tm ts)
  obtain d el where tm: "tm = (d, el)" by (cases tm)
  show ?case
    unfolding tm by (simp add: Cons.IH) (auto simp: reveal_def)
qed

text \<open>
  C7, as the specification words it, fails when an entry that does not intersect precedes
  one that does: in the batch of element 20 (not intersecting) and element 21
  (intersecting), element 21 is the first of the intersecting entries, index 0, and its
  timer is set to 100 ms, not to 0 ms.
\<close>

theorem stagger_index_counterexample:
  "fadeObserver_callback
      [\<lparr>target = 20, isIntersecting = False\<rparr>, \<lparr>target = 21, isIntersecting = True\<rparr>]
     = [(100, 21)]
   \<and> index_among_intersecting
        [\<lparr>target = 20, isIntersecting = False\<rparr>, \<lparr>target = 21, isIntersecting = True\<rparr>] 1 = 0
   \<and> (100 * index_among_intersecting
        [\<lparr>target = 20, isIntersecting = False\<rparr>, \<lparr>target = 21, isIntersecting = True\<rparr>] 1, 21)
       \<notin> set (fadeObserver_callback
        [\<lparr>target = 20, isIntersecting = False\<rparr>, \<lparr>target = 21, isIntersecting = True\<rparr>])"
  by (simp add: fadeObserver_callback_def index_among_intersecting_def enumerate_eq_zip)

text \<open>
  C7, amended. For every batch delivered to the fade-in observer, the callback sets one
  timer for each intersecting entry, with a delay of 100 ms times the entry's index in
  the whole batch (entries that do not intersect are counted too); once that delay has
  passed the element has opacity 1 and zero vertical offset, and an element with no timer
  due keeps its style.
\<close>

theorem fade_stagger:
  "((d, el) \<in> set (fadeObserver_callback es)) =
     (\<exists>i<length es. isIntersecting (es ! i) \<and> d = i * 100 \<and> el = target (es ! i))
   \<and> length (fadeObserver_callback es) = length (filter isIntersecting es)
   \<and> fade_after t es st el =
       (if \<exists>i<length es. isIntersecting (es ! i) \<and> target (es ! i) = el \<and> i * 100 \<le> t
        then (st el)\<lparr>opacity := ''1'', transform := ''translateY(0)''\<rparr> else st el)"
proof (intro conjI)
  show "((d, el) \<in> set (fadeObserver_callback es)) =
     (\<exists>i<length es. isIntersecting (es ! i) \<and> d = i * 100 \<and> el = target (es ! i))"
    by (rule fade_timers_set)
  show "length (fadeObserver_callback es) = length (filter isIntersecting es)"
    unfolding fadeObserver_callback_def by (rule fade_timers_length_from)
  have "(\<exists>d. (d, el) \<in> set (fadeObserver_callback es) \<and> d \<le> t) =
        (\<exists>i<length es. isIntersecting (es ! i) \<and> target (es ! i) = el \<and> i * 100 \<le> t)"
    by (auto simp: fade_timers_set)
  then show "fade_after t es st el =
       (if \<exists>i<length es. isIntersecting (es ! i) \<and> target (es ! i) = el \<and> i * 100 \<le> t
        then (st el)\<lparr>opacity := ''1'', transform := ''translateY(0)''\<rparr> else st el)"
    by (simp add: fade_after_def fold_reveal)
qed

section \<open>Service-worker registration: proof\<close>

text \<open>
  C6. The condition of the registration looks for "localhost" in the user-agent string,
  not at the host: in a browser with service workers and an ordinary user-agent string
  that shows the page from localhost, the load listener is added and registers
  \<^verbatim>\<open>/sw.js\<close>; a failure of the registration goes to the console only.
\<close>

theorem registers_on_localhost:
  "hostname localhost_browser = ''localhost''
   \<and> load_listener_added localhost_browser
   \<and> registered (register_on_load localhost_browser (Rejected ''SecurityError'')) = [''/sw.js'']
   \<and> console (register_on_load localhost_browser (Rejected ''SecurityError''))
       = [''SW registration failed:  SecurityError'']"
  by (simp add: register_on_load_def load_listener_added_def localhost_browser_def)

section \<open>Debounce: proofs\<close>

lemma timer_delay_small: "ms < 2 ^ 31 \<Longrightarrow> timer_delay ms = ms"
  by (simp add: timer_delay_def Let_def)

lemma run_until_idle: "timers s = [] \<Longrightarrow> run_until t s = s"
  by (subst run_until.simps) simp

lemma run_until_not_due: "timers s = [(i, due, a)] \<Longrightarrow> t < due \<Longrightarrow> run_until t s = s"
  by (subst run_until.simps) simp

lemma run_before_not_due: "timers s = [(i, due, a)] \<Longrightarrow> t < due \<Longrightarrow> run_before t s = s"
  by (simp add: run_before_def run_until_not_due)

lemma run_until_fires:
  assumes "timers s = [(i, due, a)]" and "due \<le> t"
  shows "run_until t s = s\<lparr>timers := [], invocations := invocations s @ [(due, a)]\<rparr>"
proof -
  let ?next = "later due a (s\<lparr>timers := cancel i (timers s)\<rparr>)"
  have s1: "?next = s\<lparr>timers := [], invocations := invocations s @ [(due, a)]\<rparr>"
    using assms(1) by (simp add: later_def clearTimeout_def cancel_def Let_def split: option.splits)
  have "run_until t s = run_until t ?next"
    using assms by (subst run_until.simps) simp
  also have "\<dots> = ?next"
    by (rule run_until_idle) (simp add: s1)
  finally show ?thesis by (simp add: s1)
qed

lemma executedFunction_pending:
  assumes "timers s = [] \<or> (\<exists>due a. timers s = [(i, due, a)] \<and> timeout s = Some i)"
  shows "timers (executedFunction wait now args s) = [(next_id s, now + timer_delay wait, args)]
       \<and> timeout (executedFunction wait now args s) = Some (next_id s)
       \<and> invocations (executedFunction wait now args s) = invocations s"
  using assms
  by (auto simp: executedFunction_def setTimeout_def clearTimeout_def cancel_def Let_def
      split: option.splits)

lemma debounced_calls_pending:
  assumes "gaps_below (timer_delay wait) ((t0, a0) # cs)"
    and "timers s = [(i, t0 + timer_delay wait, a0)]" and "timeout s = Some i"
  shows "\<exists>j. timers (debounced_calls wait cs s)
               = [(j, fst (last ((t0, a0) # cs)) + timer_delay wait, snd (last ((t0, a0) # cs)))]
           \<and> timeout (debounced_calls wait cs s) = Some j
           \<and> invocations (debounced_calls wait cs s) = invocations s"
  using assms
proof (induction cs arbitrary: s t0 a0 i)
  case Nil
  then show ?case by simp
next
  case (Cons c cs)
  obtain t1 a1 where c: "c = (t1, a1)" by (cases c)
  from Cons.prems(1) have g: "t1 < t0 + timer_delay wait"
    "gaps_below (timer_delay wait) ((t1, a1) # cs)"
    by (auto simp: c)
  have idle: "run_before t1 s = s"
    using Cons.prems(2) g(1) by (rule run_before_not_due)
  let ?next = "executedFunction wait t1 a1 s"
  have p: "timers ?next = [(next_id s, t1 + timer_delay wait, a1)]"
    "timeout ?next = Some (next_id s)" "invocations ?next = invocations s"
    using executedFunction_pending [of s i wait t1 a1] Cons.prems(2,3) by auto
  from Cons.IH [OF g(2) p(1) p(2)] show ?case
    by (simp add: c idle p(3))
qed

lemma debounce_effective_delay:
  assumes "cs \<noteq> []" and "gaps_below (timer_delay wait) cs"
  shows "invocations (run_until T (debounced_calls wait cs debounce_init)) =
           (if fst (last cs) + timer_delay wait \<le> T
            then [(fst (last cs) + timer_delay wait, snd (last cs))] else [])"
proof -
  obtain t0 a0 cs' where cs: "cs = (t0, a0) # cs'"
    using assms(1) by (cases cs) auto
  let ?first = "executedFunction wait t0 a0 (debounce_init :: 'a debounce_state)"
  have idle: "run_before t0 debounce_init = (debounce_init :: 'a debounce_state)"
    by (simp add: run_before_def run_until_idle debounce_init_def)
  have p: "timers ?first = [(0, t0 + timer_delay wait, a0)]" "timeout ?first = Some 0"
    "invocations ?first = []"
    using executedFunction_pending [of "debounce_init :: 'a debounce_state" 0 wait t0 a0]
    by (simp_all add: debounce_init_def)
  let ?final = "debounced_calls wait cs debounce_init"
  have s: "?final = debounced_calls wait cs' ?first"
    by (simp add: cs idle)
  have "\<exists>j. timers ?final = [(j, fst (last cs) + timer_delay wait, snd (last cs))]
          \<and> invocations ?final = []"
    using debounced_calls_pending [OF assms(2) [unfolded cs] p(1) p(2)] p(3)
    unfolding s by (auto simp: cs)
  then obtain j where j: "timers ?final = [(j, fst (last cs) + timer_delay wait, snd (last cs))]"
    "invocations ?final = []"
    by blast
  show ?thesis
  proof (cases "fst (last cs) + timer_delay wait \<le> T")
    case True
    with run_until_fires [OF j(1) True] j(2) show ?thesis by simp
  next
    case False
    then have "T < fst (last cs) + timer_delay wait" by simp
    with run_until_not_due [OF j(1) this] j(2) False show ?thesis by simp
  qed
qed

text \<open>
  C8, as the specification words it, fails for a quiet period of \<open>2^31\<close> ms: the browser's
  timer takes the delay as a signed 32-bit integer and does not wait. Five calls 20 ms
  apart, all gaps far below the quiet period, invoke the wrapped function five times
  within 100 ms, once for each call.
\<close>

theorem debounce_overflow_counterexample:
  "gaps_below 2147483648 [(0, ''a''), (20, ''b''), (40, ''c''), (60, ''d''), (80::nat, ''e'')]
   \<and> map snd (invocations (run_until 100 (debounced_calls 2147483648
        [(0, ''a''), (20, ''b''), (40, ''c''), (60, ''d''), (80, ''e'')] debounce_init)))
       = [''a'', ''b'', ''c'', ''d'', ''e'']"
  by (simp add: run_before_def run_until.simps executedFunction_def setTimeout_def later_def
      clearTimeout_def cancel_def timer_delay_def debounce_init_def Let_def)

text \<open>
  C8, amended. For every quiet period \<open>wait\<close> below \<open>2^31\<close> ms and every non-empty sequence
  of calls of the debounced wrapper (five calls among them) in which consecutive calls are
  less than \<open>wait\<close> apart, the wrapped function has not been invoked before the quiet
  period after the last call has passed, and from then on it has been invoked exactly
  once: at the last call's time plus \<open>wait\<close>, with the arguments of the last call.
\<close>

theorem debounce_trailing_call:
  assumes "cs \<noteq> []" and "wait < 2 ^ 31" and "gaps_below wait cs"
  shows "invocations (run_until T (debounced_calls wait cs debounce_init)) =
           (if fst (last cs) + wait \<le> T then [(fst (last cs) + wait, snd (last cs))] else [])"
  using debounce_effective_delay [of cs wait T] assms
  by (simp add: timer_delay_small)

theorem debounce_trailing_call_witness:
  "length [(0, ''a''), (100, ''b''), (200, ''c''), (300, ''d''), (400::nat, ''e'')] = 5
   \<and> invocations (run_until 649 (debounced_calls 250
        [(0, ''a''), (100, ''b''), (200, ''c''), (300, ''d''), (400, ''e'')] debounce_init)) = []
   \<and> invocations (run_until 5000 (debounced_calls 250
        [(0, ''a''), (100, ''b''), (200, ''c''), (300, ''d''), (400, ''e'')] debounce_init))
       = [(650, ''e'')]"
proof -
  have g: "gaps_below 250 [(0, ''a''), (100, ''b''), (200, ''c''), (300, ''d''), (400::nat, ''e'')]"
    by simp
  have w: "(250::nat) < 2 ^ 31" by simp
  show ?thesis
    using debounce_trailing_call [OF _ w g, of 649] debounce_trailing_call [OF _ w g, of 5000]
    by simp
qed

end
